theory Spec2Isabelle
  imports Complex_Main
begin

section \<open>Values, statuses and exceptions\<close>

text \<open>
  The payloads that travel between the use cases of \<^verbatim>\<open>app/usecase.py\<close> are plain Python
  values decoded from JSON. A dict is an association list with distinct keys, in
  insertion order.
\<close>

datatype json =
    JNull
  | JBool bool
  | JNum rat
  | JStr string
  | JList "json list"
  | JDict "(string \<times> json) list"

text \<open>
  Modelled from the spec: the \<^verbatim>\<open>RecognitionStatus\<close> enum of \<^verbatim>\<open>app/domain.py\<close>, which is
  not among the sources. Its members are the ones \<^verbatim>\<open>usecase.py\<close> names. The store holds
  a member's \<^verbatim>\<open>.value\<close>; two members of a Python enum never share a value, so the value
  is identified with the member.
\<close>

datatype RecognitionStatus =
    WAITING_FOR_UPLOAD
  | UPLOAD_TIMED_OUT
  | IN_PROGRESS
  | INVALID_BLOB_HAS_BEEN_UPLOADED
  | TOO_LARGE_BLOB_HAS_BEEN_UPLOADED
  | UNEXPECTED_ERROR
  | SUCCESS
  | FAILED_DUE_TO_CALLBACK_FAILURE
  | FAILED_DUE_TO_CALLBACK_TIME_OUT
  | FAILED_DUE_TO_CALLBACK_CONNECTION
  | NOT_FOUND

text \<open>
  The exception classes that \<^verbatim>\<open>usecase.py\<close> imports from \<^verbatim>\<open>app/exception.py\<close>. Each is a
  \<^verbatim>\<open>RecognitionBaseException\<close>: a message and a payload dict. A payload entry is a
  string or the value of a status.
\<close>

datatype exception_class =
    CallbackUrlIsNotValid
  | BlobWasNotFound
  | BlobIsNotUploadedYet
  | BlobUploadTimedOut
  | BlobRecognitionIsInProgress
  | InvalidBlobHasBeenUploaded
  | TooLargeBlobHasBeenUploaded
  | RecognitionStepHasBeenFailed
  | UnexpectedErrorOccurred

datatype payload_value = Str string | Status_value RecognitionStatus

text \<open>
  What a call can raise: one of the application's exceptions, one of the two errors the
  Python runtime raises when a value has no \<^verbatim>\<open>get\<close> attribute or cannot be iterated, or
  an exception of a collaborator that no \<^verbatim>\<open>except\<close> clause matches (kept by its class
  name).
\<close>

datatype exn =
    RecognitionBaseException exception_class string "(string \<times> payload_value) list"
  | AttributeError
  | TypeError
  | Uncaught string

section \<open>The collaborators\<close>

text \<open>
  Modelled from the spec: the record of a blob and the BlobRecord store behind
  \<^verbatim>\<open>blob_dynamodb_client\<close> (its class is not among the sources). The spec gives the
  record a callback url, a status and optional labels, and the store the operations
  \<^verbatim>\<open>create(id, callback_url, status)\<close>, \<^verbatim>\<open>get(id)\<close>, \<^verbatim>\<open>update_status(id, status)\<close> and
  \<^verbatim>\<open>save_labels(id, labels)\<close>, each a single-record read or write keyed by the id.
  A write to an id that has no record leaves the store as it is.
\<close>

record BlobRecord =
  callback_url :: string
  status :: RecognitionStatus
  labels :: "json option"

text \<open>
  Every call a use case makes on a collaborator that lives outside the process, in the
  order the calls are made.
\<close>

datatype call =
    Db_create string string RecognitionStatus
  | Db_get_blob string
  | Db_update_status string RecognitionStatus
  | Db_save_labels string json
  | Uploading_step_function_launch string
  | Recognition_step_function_launch string
  | S3_generate_presigned_url string
  | S3_is_uploaded string
  | Rekognition_detect_labels string
  | Http_invoke string json

record world =
  store :: "string \<rightharpoonup> BlobRecord"
  calls :: "call list"

definition create :: "string \<Rightarrow> string \<Rightarrow> RecognitionStatus \<Rightarrow> world \<Rightarrow> world" where
  "create blob_id url st w =
     w\<lparr>store := (store w)(blob_id \<mapsto> \<lparr>callback_url = url, status = st, labels = None\<rparr>),
       calls := calls w @ [Db_create blob_id url st]\<rparr>"

definition get_blob :: "string \<Rightarrow> world \<Rightarrow> BlobRecord option \<times> world" where
  "get_blob blob_id w = (store w blob_id, w\<lparr>calls := calls w @ [Db_get_blob blob_id]\<rparr>)"

definition update_status :: "string \<Rightarrow> RecognitionStatus \<Rightarrow> world \<Rightarrow> world" where
  "update_status blob_id st w =
     w\<lparr>store := (case store w blob_id of
                   None \<Rightarrow> store w
                 | Some b \<Rightarrow> (store w)(blob_id \<mapsto> b\<lparr>status := st\<rparr>)),
       calls := calls w @ [Db_update_status blob_id st]\<rparr>"

definition save_labels :: "string \<Rightarrow> json \<Rightarrow> world \<Rightarrow> world" where
  "save_labels blob_id ls w =
     w\<lparr>store := (case store w blob_id of
                   None \<Rightarrow> store w
                 | Some b \<Rightarrow> (store w)(blob_id \<mapsto> b\<lparr>labels := Some ls\<rparr>)),
       calls := calls w @ [Db_save_labels blob_id ls]\<rparr>"

text \<open>
  Modelled from the spec: the result objects of \<^verbatim>\<open>app/dto.py\<close> (not among the sources),
  each a blob id with labels, and \<^verbatim>\<open>as_dict\<close>, the JSON body \<^verbatim>\<open>{blob_id, labels}\<close>.
\<close>

record BlobRecognitionResult =
  result_blob_id :: string
  result_labels :: json

definition as_dict :: "BlobRecognitionResult \<Rightarrow> json" where
  "as_dict r = JDict [(''blob_id'', JStr (result_blob_id r)), (''labels'', result_labels r)]"

section \<open>GetRecognitionResult\<close>

text \<open>\<^verbatim>\<open>blob.get('labels')\<close>: the labels of the record, \<^verbatim>\<open>None\<close> when it has none.\<close>

definition get_labels_field :: "BlobRecord \<Rightarrow> json" where
  "get_labels_field b = (case labels b of None \<Rightarrow> JNull | Some ls \<Rightarrow> ls)"

definition GetRecognitionResult ::
  "string \<Rightarrow> world \<Rightarrow> (exn + BlobRecognitionResult) \<times> world" where
  "GetRecognitionResult blob_id w =
     (case get_blob blob_id w of
        (None, w') \<Rightarrow>
          (Inl (RecognitionBaseException BlobWasNotFound ''Blob not found.''
                  [(''blob_id'', Str blob_id), (''status'', Status_value NOT_FOUND)]), w')
      | (Some blob, w') \<Rightarrow>
          (let st = status blob in
           if st = WAITING_FOR_UPLOAD then
             (Inl (RecognitionBaseException BlobIsNotUploadedYet
                     ''Blob hasn't been uploaded yet.''
                     [(''blob_id'', Str blob_id), (''status'', Status_value st)]), w')
           else if st = UPLOAD_TIMED_OUT then
             (Inl (RecognitionBaseException BlobUploadTimedOut
                     ''Blob upload is timed out.''
                     [(''blob_id'', Str blob_id), (''status'', Status_value st)]), w')
           else if st = IN_PROGRESS then
             (Inl (RecognitionBaseException BlobRecognitionIsInProgress
                     ''Recognition is in progress.''
                     [(''blob_id'', Str blob_id), (''status'', Status_value st)]), w')
           else if st = INVALID_BLOB_HAS_BEEN_UPLOADED then
             (Inl (RecognitionBaseException InvalidBlobHasBeenUploaded
                     ''Invalid image format has been uploaded.''
                     [(''blob_id'', Str blob_id), (''status'', Status_value st)]), w')
           else if st = TOO_LARGE_BLOB_HAS_BEEN_UPLOADED then
             (Inl (RecognitionBaseException TooLargeBlobHasBeenUploaded
                     ''Too large image has been uploaded.''
                     [(''blob_id'', Str blob_id), (''status'', Status_value st)]), w')
           else if st = UNEXPECTED_ERROR then
             (Inl (RecognitionBaseException UnexpectedErrorOccurred
                     ''Unexpected error occurred while recognition, try again.''
                     [(''blob_id'', Str blob_id), (''status'', Status_value st)]), w')
           else
             (Inr \<lparr>result_blob_id = blob_id, result_labels = get_labels_field blob\<rparr>, w')))"

section \<open>InitializeUploadListening and UrlValidator\<close>

text \<open>
  The collaborators whose answers come from outside the process are gathered in one
  record, as the container hands them to the use cases.
  \<^item> \<^verbatim>\<open>marshmallow.validate.URL\<close> is a library class: calling the validator returns or
    raises \<^verbatim>\<open>ValidationError\<close>.
  \<^item> Modelled from the spec: the S3 client and the Rekognition client, whose classes are
    not among the sources. The spec gives the first \<^verbatim>\<open>generate_upload_target(id)\<close> and
    \<^verbatim>\<open>is_uploaded(id)\<close>, and has the second return the raw payload or fail with one of
    two classified errors; \<^verbatim>\<open>usecase.py\<close> catches them as InvalidBlobHasBeenUploaded and
    TooLargeBlobHasBeenUploaded and reads their message.
  \<^item> \<^verbatim>\<open>http_invoke\<close> is the callable the Invoker is built with, called with a url, a
    JSON body and the timeout. It returns a response with a status code or raises: a
    \<^verbatim>\<open>ConnectTimeout\<close>, a \<^verbatim>\<open>ConnectionError\<close>, or an exception of another class.
\<close>

datatype validation = Passes | Raises_ValidationError

datatype detection =
    Detected json
  | Raises_InvalidBlobHasBeenUploaded string
  | Raises_TooLargeBlobHasBeenUploaded string

datatype http_outcome =
    Response int
  | Raises_ConnectTimeout
  | Raises_ConnectionError
  | Raises string

record env =
  validate :: "string \<Rightarrow> validation"
  presigned_url :: "string \<Rightarrow> string"
  uploaded :: "string \<Rightarrow> bool"
  recognise :: "string \<Rightarrow> detection"
  http_invoke :: "string \<Rightarrow> json \<Rightarrow> rat \<Rightarrow> http_outcome"
  timeout :: rat

definition launch_uploading :: "string \<Rightarrow> world \<Rightarrow> world" where
  "launch_uploading blob_id w = w\<lparr>calls := calls w @ [Uploading_step_function_launch blob_id]\<rparr>"

definition launch_recognition :: "string \<Rightarrow> world \<Rightarrow> world" where
  "launch_recognition blob_id w =
     w\<lparr>calls := calls w @ [Recognition_step_function_launch blob_id]\<rparr>"

definition generate_presigned_url :: "env \<Rightarrow> string \<Rightarrow> world \<Rightarrow> string \<times> world" where
  "generate_presigned_url e blob_id w =
     (presigned_url e blob_id, w\<lparr>calls := calls w @ [S3_generate_presigned_url blob_id]\<rparr>)"

definition is_uploaded :: "env \<Rightarrow> string \<Rightarrow> world \<Rightarrow> bool \<times> world" where
  "is_uploaded e blob_id w = (uploaded e blob_id, w\<lparr>calls := calls w @ [S3_is_uploaded blob_id]\<rparr>)"

definition detect_labels :: "env \<Rightarrow> string \<Rightarrow> world \<Rightarrow> detection \<times> world" where
  "detect_labels e blob_id w =
     (recognise e blob_id, w\<lparr>calls := calls w @ [Rekognition_detect_labels blob_id]\<rparr>)"

definition is_valid_url :: "env \<Rightarrow> string \<Rightarrow> bool" where
  "is_valid_url e url = (case validate e url of Passes \<Rightarrow> True | Raises_ValidationError \<Rightarrow> False)"

record UploadInitializingResult =
  init_blob_id :: string
  init_upload_url :: string
  init_callback_url :: string

definition validate_callback_url :: "env \<Rightarrow> string \<Rightarrow> exn + unit" where
  "validate_callback_url e url =
     (if \<not> is_valid_url e url
      then Inl (RecognitionBaseException CallbackUrlIsNotValid ''Invalid callback url supplied.''
                  [(''callback_url'', Str url)])
      else Inr ())"

definition InitializeUploadListening ::
  "env \<Rightarrow> string \<Rightarrow> string \<Rightarrow> world \<Rightarrow> (exn + UploadInitializingResult) \<times> world" where
  "InitializeUploadListening e blob_id url w =
     (case validate_callback_url e url of
        Inl err \<Rightarrow> (Inl err, w)
      | Inr _ \<Rightarrow>
          (let w1 = create blob_id url WAITING_FOR_UPLOAD w;
               w2 = launch_uploading blob_id w1
           in case generate_presigned_url e blob_id w2 of
                (upload_url, w3) \<Rightarrow>
                  (Inr \<lparr>init_blob_id = blob_id, init_upload_url = upload_url,
                         init_callback_url = url\<rparr>, w3)))"

text \<open>
  A validator to run the registrar on: a url passes when it is one of the schemes,
  then \<^verbatim>\<open>://\<close>, then something more. It stands in for \<^verbatim>\<open>URL(schemes=['http', 'https'])\<close>
  on the few urls that are evaluated below.
\<close>

definition URL :: "string list \<Rightarrow> string \<Rightarrow> validation" where
  "URL schemes url =
     (if list_ex (\<lambda>s. take (length s + 3) url = s @ ''://'' \<and> length s + 3 < length url) schemes
      then Passes else Raises_ValidationError)"

section \<open>CheckUploading, StartRecognition, GetLabels\<close>

definition CheckUploading :: "env \<Rightarrow> string \<Rightarrow> world \<Rightarrow> (exn + unit) \<times> world" where
  "CheckUploading e blob_id w =
     (case is_uploaded e blob_id w of
        (True, w') \<Rightarrow> (Inr (), w')
      | (False, w') \<Rightarrow> (Inr (), update_status blob_id UPLOAD_TIMED_OUT w'))"

definition StartRecognition :: "string \<Rightarrow> world \<Rightarrow> (exn + unit) \<times> world" where
  "StartRecognition blob_id w =
     (let w1 = update_status blob_id IN_PROGRESS w;
          w2 = launch_recognition blob_id w1
      in (Inr (), w2))"

record RecognitionStepFunctionResult =
  step_blob_id :: string
  step_labels :: json

definition GetLabels ::
  "env \<Rightarrow> string \<Rightarrow> world \<Rightarrow> (exn + RecognitionStepFunctionResult) \<times> world" where
  "GetLabels e blob_id w =
     (case detect_labels e blob_id w of
        (Raises_InvalidBlobHasBeenUploaded msg, w') \<Rightarrow>
          (let w'' = update_status blob_id INVALID_BLOB_HAS_BEEN_UPLOADED w'
           in (Inl (RecognitionBaseException RecognitionStepHasBeenFailed msg
                      [(''blob_id'', Str blob_id)]), w''))
      | (Raises_TooLargeBlobHasBeenUploaded msg, w') \<Rightarrow>
          (let w'' = update_status blob_id TOO_LARGE_BLOB_HAS_BEEN_UPLOADED w'
           in (Inl (RecognitionBaseException RecognitionStepHasBeenFailed msg
                      [(''blob_id'', Str blob_id)]), w''))
      | (Detected raw_labels_data, w') \<Rightarrow>
          (Inr \<lparr>step_blob_id = blob_id, step_labels = raw_labels_data\<rparr>, w'))"

section \<open>TransformLabels\<close>

text \<open>
  \<^verbatim>\<open>d.get(key, default)\<close> is an attribute of dicts only, and a \<^verbatim>\<open>for\<close> runs over a list, over
  the keys of a dict or over the characters of a string; on any other value Python
  raises.
\<close>

definition lookup_default :: "(string \<times> json) list \<Rightarrow> string \<Rightarrow> json \<Rightarrow> json" where
  "lookup_default kvs k d = (case map_of kvs k of None \<Rightarrow> d | Some v \<Rightarrow> v)"

fun py_get :: "json \<Rightarrow> string \<Rightarrow> json \<Rightarrow> exn + json" where
  "py_get (JDict kvs) k d = Inr (lookup_default kvs k d)"
| "py_get _ k d = Inl AttributeError"

fun py_iter :: "json \<Rightarrow> exn + json list" where
  "py_iter (JList xs) = Inr xs"
| "py_iter (JDict kvs) = Inr (map (\<lambda>kv. JStr (fst kv)) kvs)"
| "py_iter (JStr s) = Inr (map (\<lambda>c. JStr [c]) s)"
| "py_iter _ = Inl TypeError"

text \<open>A list comprehension: the elements in order, stopping at the first that raises.\<close>

fun comprehension :: "('a \<Rightarrow> exn + 'b) \<Rightarrow> 'a list \<Rightarrow> exn + 'b list" where
  "comprehension f [] = Inr []"
| "comprehension f (x # xs) =
     (case f x of
        Inl err \<Rightarrow> Inl err
      | Inr y \<Rightarrow> (case comprehension f xs of Inl err \<Rightarrow> Inl err | Inr ys \<Rightarrow> Inr (y # ys)))"

definition transform_label :: "json \<Rightarrow> exn + json" where
  "transform_label label =
     (case py_get label ''Name'' (JStr '''') of
        Inl err \<Rightarrow> Inl err
      | Inr name \<Rightarrow>
     (case py_get label ''Confidence'' (JStr '''') of
        Inl err \<Rightarrow> Inl err
      | Inr confidence \<Rightarrow>
     (case py_get label ''Parents'' (JDict []) of
        Inl err \<Rightarrow> Inl err
      | Inr parents \<Rightarrow>
     (case py_iter parents of
        Inl err \<Rightarrow> Inl err
      | Inr ps \<Rightarrow>
     (case comprehension (\<lambda>parent. py_get parent ''Name'' (JStr '''')) ps of
        Inl err \<Rightarrow> Inl err
      | Inr names \<Rightarrow>
          Inr (JDict [(''label'', name), (''confidence'', confidence),
                      (''parents'', JList names)]))))))"

definition transform :: "json \<Rightarrow> exn + json" where
  "transform raw_labels_data =
     (case py_get raw_labels_data ''Labels'' JNull of
        Inl err \<Rightarrow> Inl err
      | Inr label_list \<Rightarrow>
     (case py_iter label_list of
        Inl err \<Rightarrow> Inl err
      | Inr ls \<Rightarrow>
     (case comprehension transform_label ls of
        Inl err \<Rightarrow> Inl err
      | Inr out \<Rightarrow> Inr (JList out))))"

definition TransformLabels :: "string \<Rightarrow> json \<Rightarrow> exn + RecognitionStepFunctionResult" where
  "TransformLabels blob_id raw_labels_data =
     (case transform raw_labels_data of
        Inl err \<Rightarrow> Inl err
      | Inr ls \<Rightarrow> Inr \<lparr>step_blob_id = blob_id, step_labels = ls\<rparr>)"

text \<open>
  The shape of a raw detection payload: every detected label is a dict whose
  \<^verbatim>\<open>Parents\<close>, when the key is there, is a list of dicts.
\<close>

fun is_dict :: "json \<Rightarrow> bool" where
  "is_dict (JDict kvs) = True"
| "is_dict _ = False"

fun dict_items :: "json \<Rightarrow> (string \<times> json) list" where
  "dict_items (JDict kvs) = kvs"
| "dict_items _ = []"

fun detected_label :: "json \<Rightarrow> bool" where
  "detected_label (JDict kvs) =
     (case map_of kvs ''Parents'' of
        None \<Rightarrow> True
      | Some (JList ps) \<Rightarrow> list_all is_dict ps
      | Some _ \<Rightarrow> False)"
| "detected_label _ = False"

definition parent_list :: "json \<Rightarrow> json list" where
  "parent_list l = (case map_of (dict_items l) ''Parents'' of Some (JList ps) \<Rightarrow> ps | _ \<Rightarrow> [])"

section \<open>SaveLabels, InvokeCallback and Invoker, HandleUnexpectedError\<close>

definition SaveLabels ::
  "string \<Rightarrow> json \<Rightarrow> world \<Rightarrow> (exn + RecognitionStepFunctionResult) \<times> world" where
  "SaveLabels blob_id ls w =
     (Inr \<lparr>step_blob_id = blob_id, step_labels = ls\<rparr>, save_labels blob_id ls w)"

definition Invoker_SUCCESS :: int where
  "Invoker_SUCCESS = 0"

definition Invoker_CALLBACK_FAILURE :: int where
  "Invoker_CALLBACK_FAILURE = 1"

definition Invoker_CONNECTION_TIMEOUT :: int where
  "Invoker_CONNECTION_TIMEOUT = 2"

definition Invoker_CONNECTION_ERROR :: int where
  "Invoker_CONNECTION_ERROR = 3"

definition invoke :: "env \<Rightarrow> string \<Rightarrow> json \<Rightarrow> world \<Rightarrow> (exn + int) \<times> world" where
  "invoke e url data w =
     (let w' = w\<lparr>calls := calls w @ [Http_invoke url data]\<rparr>
      in case http_invoke e url data (timeout e) of
           Response status_code \<Rightarrow>
             (if status_code = 204 then (Inr Invoker_SUCCESS, w')
              else (Inr Invoker_CALLBACK_FAILURE, w'))
         | Raises_ConnectTimeout \<Rightarrow> (Inr Invoker_CONNECTION_TIMEOUT, w')
         | Raises_ConnectionError \<Rightarrow> (Inr Invoker_CONNECTION_ERROR, w')
         | Raises cls \<Rightarrow> (Inl (Uncaught cls), w'))"

definition InvokeCallback ::
  "env \<Rightarrow> string \<Rightarrow> json \<Rightarrow> world \<Rightarrow> (exn + RecognitionStepFunctionResult) \<times> world" where
  "InvokeCallback e blob_id ls w =
     (case get_blob blob_id w of
        (None, w1) \<Rightarrow> (Inl AttributeError, w1)
      | (Some blob, w1) \<Rightarrow>
          (let url = callback_url blob;
               data_to_send = \<lparr>result_blob_id = blob_id, result_labels = ls\<rparr>
           in case invoke e url (as_dict data_to_send) w1 of
                (Inl err, w2) \<Rightarrow> (Inl err, w2)
              | (Inr st, w2) \<Rightarrow>
                  (let w3 =
                     (if st = Invoker_SUCCESS then update_status blob_id SUCCESS w2
                      else if st = Invoker_CALLBACK_FAILURE
                        then update_status blob_id FAILED_DUE_TO_CALLBACK_FAILURE w2
                      else if st = Invoker_CONNECTION_TIMEOUT
                        then update_status blob_id FAILED_DUE_TO_CALLBACK_TIME_OUT w2
                      else if st = Invoker_CONNECTION_ERROR
                        then update_status blob_id FAILED_DUE_TO_CALLBACK_CONNECTION w2
                      else w2)
                   in (Inr \<lparr>step_blob_id = blob_id, step_labels = ls\<rparr>, w3))))"

definition HandleUnexpectedError :: "string \<Rightarrow> world \<Rightarrow> (exn + unit) \<times> world" where
  "HandleUnexpectedError blob_id w = (Inr (), update_status blob_id UNEXPECTED_ERROR w)"

section \<open>Sequences of invocations and the state machine\<close>

text \<open>
  One invocation of a use case, as a handler of \<^verbatim>\<open>app/lambdas.py\<close> makes it, and its effect
  on the world. Each invocation meets the collaborators as they answer at that moment.
\<close>

datatype invocation =
    Call_InitializeUploadListening string string
  | Call_CheckUploading string
  | Call_StartRecognition string
  | Call_GetLabels string
  | Call_TransformLabels string json
  | Call_SaveLabels string json
  | Call_InvokeCallback string json
  | Call_HandleUnexpectedError string
  | Call_GetRecognitionResult string

fun step :: "env \<Rightarrow> invocation \<Rightarrow> world \<Rightarrow> world" where
  "step e (Call_InitializeUploadListening blob_id url) w =
     snd (InitializeUploadListening e blob_id url w)"
| "step e (Call_CheckUploading blob_id) w = snd (CheckUploading e blob_id w)"
| "step e (Call_StartRecognition blob_id) w = snd (StartRecognition blob_id w)"
| "step e (Call_GetLabels blob_id) w = snd (GetLabels e blob_id w)"
| "step e (Call_TransformLabels blob_id raw) w = w"
| "step e (Call_SaveLabels blob_id ls) w = snd (SaveLabels blob_id ls w)"
| "step e (Call_InvokeCallback blob_id ls) w = snd (InvokeCallback e blob_id ls w)"
| "step e (Call_HandleUnexpectedError blob_id) w = snd (HandleUnexpectedError blob_id w)"
| "step e (Call_GetRecognitionResult blob_id) w = snd (GetRecognitionResult blob_id w)"

fun run :: "(env \<times> invocation) list \<Rightarrow> world \<Rightarrow> world" where
  "run [] w = w"
| "run ((e, i) # rest) w = run rest (step e i w)"

text \<open>
  The edges of the state machine, in the words of the spec's summary: from
  WAITING_FOR_UPLOAD to IN_PROGRESS or UPLOAD_TIMED_OUT, from IN_PROGRESS to its
  seven successors, and nothing out of the other states.
\<close>

fun spec_edge :: "RecognitionStatus \<Rightarrow> RecognitionStatus \<Rightarrow> bool" where
  "spec_edge WAITING_FOR_UPLOAD s' = (s' = IN_PROGRESS \<or> s' = UPLOAD_TIMED_OUT)"
| "spec_edge IN_PROGRESS s' =
     (s' = INVALID_BLOB_HAS_BEEN_UPLOADED \<or> s' = TOO_LARGE_BLOB_HAS_BEEN_UPLOADED \<or>
      s' = UNEXPECTED_ERROR \<or> s' = SUCCESS \<or> s' = FAILED_DUE_TO_CALLBACK_FAILURE \<or>
      s' = FAILED_DUE_TO_CALLBACK_TIME_OUT \<or> s' = FAILED_DUE_TO_CALLBACK_CONNECTION)"
| "spec_edge _ s' = False"

definition spec_terminal :: "RecognitionStatus \<Rightarrow> bool" where
  "spec_terminal s = (s \<noteq> WAITING_FOR_UPLOAD \<and> s \<noteq> IN_PROGRESS)"

text \<open>
  When an invocation leaves a record on the edges of the state machine, read off the
  code: the invocation names another blob, or it writes no status (a watchdog that
  finds the upload, an extractor whose recognition succeeds, a dispatcher whose http
  call raises past the Invoker, a registration with a rejected url, the normalizer,
  the persister, the reader), or the record is in the state the written status is a
  successor of, or the record has the written status already.
\<close>

fun runs_in_order :: "env \<Rightarrow> invocation \<Rightarrow> string \<Rightarrow> BlobRecord \<Rightarrow> bool" where
  "runs_in_order e (Call_InitializeUploadListening blob_id url) i b =
     (blob_id \<noteq> i \<or> \<not> is_valid_url e url \<or> status b = WAITING_FOR_UPLOAD)"
| "runs_in_order e (Call_CheckUploading blob_id) i b =
     (blob_id \<noteq> i \<or> uploaded e blob_id \<or>
      status b = WAITING_FOR_UPLOAD \<or> status b = UPLOAD_TIMED_OUT)"
| "runs_in_order e (Call_StartRecognition blob_id) i b =
     (blob_id \<noteq> i \<or> status b = WAITING_FOR_UPLOAD \<or> status b = IN_PROGRESS)"
| "runs_in_order e (Call_GetLabels blob_id) i b =
     (blob_id \<noteq> i \<or>
      (case recognise e blob_id of
         Detected raw \<Rightarrow> True
       | Raises_InvalidBlobHasBeenUploaded msg \<Rightarrow>
           status b = IN_PROGRESS \<or> status b = INVALID_BLOB_HAS_BEEN_UPLOADED
       | Raises_TooLargeBlobHasBeenUploaded msg \<Rightarrow>
           status b = IN_PROGRESS \<or> status b = TOO_LARGE_BLOB_HAS_BEEN_UPLOADED))"
| "runs_in_order e (Call_InvokeCallback blob_id ls) i b =
     (blob_id \<noteq> i \<or>
      (case http_invoke e (callback_url b)
              (as_dict \<lparr>result_blob_id = blob_id, result_labels = ls\<rparr>) (timeout e) of
         Response code \<Rightarrow>
           status b = IN_PROGRESS \<or>
           status b = (if code = 204 then SUCCESS else FAILED_DUE_TO_CALLBACK_FAILURE)
       | Raises_ConnectTimeout \<Rightarrow>
           status b = IN_PROGRESS \<or> status b = FAILED_DUE_TO_CALLBACK_TIME_OUT
       | Raises_ConnectionError \<Rightarrow>
           status b = IN_PROGRESS \<or> status b = FAILED_DUE_TO_CALLBACK_CONNECTION
       | Raises cls \<Rightarrow> True))"
| "runs_in_order e (Call_HandleUnexpectedError blob_id) i b =
     (blob_id \<noteq> i \<or> status b = IN_PROGRESS \<or> status b = UNEXPECTED_ERROR)"
| "runs_in_order e (Call_TransformLabels blob_id raw) i b = True"
| "runs_in_order e (Call_SaveLabels blob_id ls) i b = True"
| "runs_in_order e (Call_GetRecognitionResult blob_id) i b = True"

text \<open>Worlds and collaborators to run the use cases on.\<close>

definition record_in :: "RecognitionStatus \<Rightarrow> BlobRecord" where
  "record_in s = \<lparr>callback_url = ''https://example.com/cb'', status = s, labels = None\<rparr>"

definition world_with :: "RecognitionStatus \<Rightarrow> world" where
  "world_with s = \<lparr>store = [''b1'' \<mapsto> record_in s], calls = []\<rparr>"

definition empty_world :: world where
  "empty_world = \<lparr>store = Map.empty, calls = []\<rparr>"

definition env_with :: "bool \<Rightarrow> detection \<Rightarrow> http_outcome \<Rightarrow> env" where
  "env_with up det http =
     \<lparr>validate = URL [''http'', ''https''],
      presigned_url = (\<lambda>blob_id. ''https://bucket.example/'' @ blob_id),
      uploaded = (\<lambda>blob_id. up),
      recognise = (\<lambda>blob_id. det),
      http_invoke = (\<lambda>url data t. http),
      timeout = 5\<rparr>"

text \<open>The class and the payload of an application exception.\<close>

fun raises :: "(exn + 'a) \<Rightarrow> exception_class \<Rightarrow> (string \<times> payload_value) list \<Rightarrow> bool" where
  "raises (Inl (RecognitionBaseException c msg p)) c' p' = (c = c' \<and> p = p')"
| "raises _ _ _ = False"

text \<open>The labels of the spec's scenario B, raw and normalized, and a world that holds them.\<close>

definition cat_raw :: json where
  "cat_raw =
     JDict [(''Labels'',
       JList [JDict [(''Name'', JStr ''Cat''), (''Confidence'', JNum (981 / 10)),
                     (''Parents'', JList [JDict [(''Name'', JStr ''Animal'')]])]])]"

definition cat_labels :: json where
  "cat_labels =
     JList [JDict [(''label'', JStr ''Cat''), (''confidence'', JNum (981 / 10)),
                   (''parents'', JList [JStr ''Animal''])]]"

definition sky_list :: "json list" where
  "sky_list =
     [JDict [(''Name'', JStr ''Cat''), (''Confidence'', JNum (981 / 10)),
             (''Parents'', JList [JDict [(''Name'', JStr ''Animal'')]])],
      JDict [(''Name'', JStr ''Sky''), (''Parents'', JList [])],
      JDict [(''Confidence'', JNum 50)]]"

definition labelled_world :: "RecognitionStatus \<Rightarrow> world" where
  "labelled_world s =
     \<lparr>store = [''b1'' \<mapsto> (record_in s)\<lparr>labels := Some cat_labels\<rparr>], calls = []\<rparr>"

text \<open>
  A blob on its way to SUCCESS: registered, recognition started, labels delivered with
  a 204.
\<close>

definition delivered :: "(env \<times> invocation) list" where
  "delivered =
     [(env_with True (Detected cat_raw) (Response 204),
         Call_InitializeUploadListening ''b1'' ''https://example.com/cb''),
      (env_with True (Detected cat_raw) (Response 204), Call_StartRecognition ''b1''),
      (env_with True (Detected cat_raw) (Response 204), Call_InvokeCallback ''b1'' cat_labels)]"

section \<open>Facts about the store\<close>

lemma store_world_with: "store (world_with s) ''b1'' = Some (record_in s)"
  by (simp add: world_with_def)

lemma status_record_in: "status (record_in s) = s"
  by (simp add: record_in_def)

lemma store_labelled_world:
  "store (labelled_world s) ''b1'' = Some ((record_in s)\<lparr>labels := Some cat_labels\<rparr>)"
  by (simp add: labelled_world_def)

lemma calls_update_status:
  "calls (update_status blob_id st w) = calls w @ [Db_update_status blob_id st]"
  by (simp add: update_status_def)

lemma update_status_present:
  "store w blob_id = Some b \<Longrightarrow>
   store (update_status blob_id st w) blob_id = Some (b\<lparr>status := st\<rparr>)"
  by (simp add: update_status_def)

lemma update_status_other:
  "i \<noteq> blob_id \<Longrightarrow> store (update_status blob_id st w) i = store w i"
  by (simp add: update_status_def split: option.split)

section \<open>The Result Reader\<close>

lemma GetRecognitionResult_store: "store (snd (GetRecognitionResult blob_id w)) = store w"
  by (simp add: GetRecognitionResult_def get_blob_def Let_def split: option.split)

lemma GetRecognitionResult_calls:
  "calls (snd (GetRecognitionResult blob_id w)) = calls w @ [Db_get_blob blob_id]"
  by (simp add: GetRecognitionResult_def get_blob_def Let_def split: option.split)

text \<open>
  C1. For every blob id, GetRecognitionResult leaves the store as it was. When the store
  has no record for the id it raises BlobWasNotFound; when the record's status is
  WAITING_FOR_UPLOAD, UPLOAD_TIMED_OUT, IN_PROGRESS, INVALID_BLOB_HAS_BEEN_UPLOADED,
  TOO_LARGE_BLOB_HAS_BEEN_UPLOADED or UNEXPECTED_ERROR it raises BlobIsNotUploadedYet,
  BlobUploadTimedOut, BlobRecognitionIsInProgress, InvalidBlobHasBeenUploaded,
  TooLargeBlobHasBeenUploaded or UnexpectedErrorOccurred, in that order, and the payload
  of each failure holds the blob id and the status.
\<close>

theorem GetRecognitionResult_failures:
  "store (snd (GetRecognitionResult blob_id w)) = store w \<and>
   (store w blob_id = None \<longrightarrow>
      raises (fst (GetRecognitionResult blob_id w)) BlobWasNotFound
        [(''blob_id'', Str blob_id), (''status'', Status_value NOT_FOUND)]) \<and>
   (\<forall>blob. store w blob_id = Some blob \<longrightarrow>
      (status blob = WAITING_FOR_UPLOAD \<longrightarrow>
         raises (fst (GetRecognitionResult blob_id w)) BlobIsNotUploadedYet
           [(''blob_id'', Str blob_id), (''status'', Status_value WAITING_FOR_UPLOAD)]) \<and>
      (status blob = UPLOAD_TIMED_OUT \<longrightarrow>
         raises (fst (GetRecognitionResult blob_id w)) BlobUploadTimedOut
           [(''blob_id'', Str blob_id), (''status'', Status_value UPLOAD_TIMED_OUT)]) \<and>
      (status blob = IN_PROGRESS \<longrightarrow>
         raises (fst (GetRecognitionResult blob_id w)) BlobRecognitionIsInProgress
           [(''blob_id'', Str blob_id), (''status'', Status_value IN_PROGRESS)]) \<and>
      (status blob = INVALID_BLOB_HAS_BEEN_UPLOADED \<longrightarrow>
         raises (fst (GetRecognitionResult blob_id w)) InvalidBlobHasBeenUploaded
           [(''blob_id'', Str blob_id),
            (''status'', Status_value INVALID_BLOB_HAS_BEEN_UPLOADED)]) \<and>
      (status blob = TOO_LARGE_BLOB_HAS_BEEN_UPLOADED \<longrightarrow>
         raises (fst (GetRecognitionResult blob_id w)) TooLargeBlobHasBeenUploaded
           [(''blob_id'', Str blob_id),
            (''status'', Status_value TOO_LARGE_BLOB_HAS_BEEN_UPLOADED)]) \<and>
      (status blob = UNEXPECTED_ERROR \<longrightarrow>
         raises (fst (GetRecognitionResult blob_id w)) UnexpectedErrorOccurred
           [(''blob_id'', Str blob_id), (''status'', Status_value UNEXPECTED_ERROR)]))"
proof (intro conjI)
  show "store (snd (GetRecognitionResult blob_id w)) = store w"
    by (rule GetRecognitionResult_store)
qed (simp_all add: GetRecognitionResult_def get_blob_def Let_def)

theorem GetRecognitionResult_failures_witness:
  "store empty_world ''b1'' = None \<and>
   raises (fst (GetRecognitionResult ''b1'' empty_world)) BlobWasNotFound
     [(''blob_id'', Str ''b1''), (''status'', Status_value NOT_FOUND)] \<and>
   store (world_with WAITING_FOR_UPLOAD) ''b1'' = Some (record_in WAITING_FOR_UPLOAD) \<and>
   raises (fst (GetRecognitionResult ''b1'' (world_with WAITING_FOR_UPLOAD))) BlobIsNotUploadedYet
     [(''blob_id'', Str ''b1''), (''status'', Status_value WAITING_FOR_UPLOAD)] \<and>
   raises (fst (GetRecognitionResult ''b1'' (world_with UPLOAD_TIMED_OUT))) BlobUploadTimedOut
     [(''blob_id'', Str ''b1''), (''status'', Status_value UPLOAD_TIMED_OUT)] \<and>
   raises (fst (GetRecognitionResult ''b1'' (world_with IN_PROGRESS))) BlobRecognitionIsInProgress
     [(''blob_id'', Str ''b1''), (''status'', Status_value IN_PROGRESS)] \<and>
   raises (fst (GetRecognitionResult ''b1'' (world_with INVALID_BLOB_HAS_BEEN_UPLOADED)))
     InvalidBlobHasBeenUploaded
     [(''blob_id'', Str ''b1''), (''status'', Status_value INVALID_BLOB_HAS_BEEN_UPLOADED)] \<and>
   raises (fst (GetRecognitionResult ''b1'' (world_with TOO_LARGE_BLOB_HAS_BEEN_UPLOADED)))
     TooLargeBlobHasBeenUploaded
     [(''blob_id'', Str ''b1''), (''status'', Status_value TOO_LARGE_BLOB_HAS_BEEN_UPLOADED)] \<and>
   raises (fst (GetRecognitionResult ''b1'' (world_with UNEXPECTED_ERROR))) UnexpectedErrorOccurred
     [(''blob_id'', Str ''b1''), (''status'', Status_value UNEXPECTED_ERROR)] \<and>
   store (snd (GetRecognitionResult ''b1'' (world_with IN_PROGRESS))) = store (world_with IN_PROGRESS)"
  using GetRecognitionResult_failures [of "''b1''" empty_world]
    GetRecognitionResult_failures [of "''b1''" "world_with WAITING_FOR_UPLOAD"]
    GetRecognitionResult_failures [of "''b1''" "world_with UPLOAD_TIMED_OUT"]
    GetRecognitionResult_failures [of "''b1''" "world_with IN_PROGRESS"]
    GetRecognitionResult_failures [of "''b1''" "world_with INVALID_BLOB_HAS_BEEN_UPLOADED"]
    GetRecognitionResult_failures [of "''b1''" "world_with TOO_LARGE_BLOB_HAS_BEEN_UPLOADED"]
    GetRecognitionResult_failures [of "''b1''" "world_with UNEXPECTED_ERROR"]
  by (simp add: store_world_with status_record_in empty_world_def)

text \<open>
  C2. For every blob id whose record has a status that is none of the six statuses the
  reader matches (so for SUCCESS and the three FAILED_DUE_TO_CALLBACK statuses),
  GetRecognitionResult raises nothing and returns the blob id with the labels of the
  record, and the store stays as it was.
\<close>

theorem GetRecognitionResult_falls_through:
  assumes "store w blob_id = Some blob"
    and "status blob \<noteq> WAITING_FOR_UPLOAD" and "status blob \<noteq> UPLOAD_TIMED_OUT"
    and "status blob \<noteq> IN_PROGRESS" and "status blob \<noteq> INVALID_BLOB_HAS_BEEN_UPLOADED"
    and "status blob \<noteq> TOO_LARGE_BLOB_HAS_BEEN_UPLOADED" and "status blob \<noteq> UNEXPECTED_ERROR"
  shows "fst (GetRecognitionResult blob_id w) =
           Inr \<lparr>result_blob_id = blob_id, result_labels = get_labels_field blob\<rparr> \<and>
         store (snd (GetRecognitionResult blob_id w)) = store w"
  using assms by (simp add: GetRecognitionResult_def get_blob_def Let_def)

theorem GetRecognitionResult_falls_through_witness:
  "fst (GetRecognitionResult ''b1'' (labelled_world SUCCESS)) =
     Inr \<lparr>result_blob_id = ''b1'', result_labels = cat_labels\<rparr> \<and>
   fst (GetRecognitionResult ''b1'' (labelled_world FAILED_DUE_TO_CALLBACK_FAILURE)) =
     Inr \<lparr>result_blob_id = ''b1'', result_labels = cat_labels\<rparr> \<and>
   fst (GetRecognitionResult ''b1'' (labelled_world FAILED_DUE_TO_CALLBACK_TIME_OUT)) =
     Inr \<lparr>result_blob_id = ''b1'', result_labels = cat_labels\<rparr> \<and>
   fst (GetRecognitionResult ''b1'' (labelled_world FAILED_DUE_TO_CALLBACK_CONNECTION)) =
     Inr \<lparr>result_blob_id = ''b1'', result_labels = cat_labels\<rparr> \<and>
   fst (GetRecognitionResult ''b1'' (world_with SUCCESS)) =
     Inr \<lparr>result_blob_id = ''b1'', result_labels = JNull\<rparr>"
  using
    GetRecognitionResult_falls_through [OF store_labelled_world, of SUCCESS]
    GetRecognitionResult_falls_through [OF store_labelled_world, of FAILED_DUE_TO_CALLBACK_FAILURE]
    GetRecognitionResult_falls_through [OF store_labelled_world, of FAILED_DUE_TO_CALLBACK_TIME_OUT]
    GetRecognitionResult_falls_through [OF store_labelled_world, of FAILED_DUE_TO_CALLBACK_CONNECTION]
    GetRecognitionResult_falls_through [OF store_world_with, of SUCCESS]
  by (simp add: status_record_in get_labels_field_def record_in_def)

section \<open>The Upload Registrar\<close>

lemma InitializeUploadListening_valid_url:
  assumes "is_valid_url e url"
  shows "fst (InitializeUploadListening e blob_id url w) =
           Inr \<lparr>init_blob_id = blob_id, init_upload_url = presigned_url e blob_id,
                 init_callback_url = url\<rparr>"
    and "calls (snd (InitializeUploadListening e blob_id url w)) =
           calls w @ [Db_create blob_id url WAITING_FOR_UPLOAD,
                      Uploading_step_function_launch blob_id,
                      S3_generate_presigned_url blob_id]"
    and "store (snd (InitializeUploadListening e blob_id url w)) blob_id =
           Some \<lparr>callback_url = url, status = WAITING_FOR_UPLOAD, labels = None\<rparr>"
  using assms
  by (simp_all add: InitializeUploadListening_def validate_callback_url_def create_def
      launch_uploading_def generate_presigned_url_def Let_def)

lemma ftp_is_not_valid: "\<not> is_valid_url (env_with up det http) ''ftp://example.com/cb''"
  by (simp add: is_valid_url_def env_with_def URL_def)

lemma https_is_valid: "is_valid_url (env_with up det http) ''https://example.com/cb''"
  by (simp add: is_valid_url_def env_with_def URL_def)

text \<open>
  C4. For every callback url that the validator rejects, InitializeUploadListening raises
  CallbackUrlIsNotValid with the url in its payload and has no effect: the world it
  leaves is the world it found, so no record is created and neither the step function
  client nor the S3 client is called.
\<close>

theorem InitializeUploadListening_invalid_url:
  assumes "\<not> is_valid_url e url"
  shows "InitializeUploadListening e blob_id url w =
           (Inl (RecognitionBaseException CallbackUrlIsNotValid ''Invalid callback url supplied.''
                   [(''callback_url'', Str url)]), w)"
  using assms by (simp add: InitializeUploadListening_def validate_callback_url_def)

theorem InitializeUploadListening_invalid_url_witness:
  "\<not> is_valid_url (env_with False (Detected JNull) (Response 204)) ''ftp://example.com/cb'' \<and>
   InitializeUploadListening (env_with False (Detected JNull) (Response 204)) ''b1''
       ''ftp://example.com/cb'' empty_world =
     (Inl (RecognitionBaseException CallbackUrlIsNotValid ''Invalid callback url supplied.''
             [(''callback_url'', Str ''ftp://example.com/cb'')]), empty_world)"
  using InitializeUploadListening_invalid_url
      [OF ftp_is_not_valid, of False "Detected JNull" "Response 204" "''b1''" empty_world]
    ftp_is_not_valid [of False "Detected JNull" "Response 204"]
  by simp

section \<open>The Label Extractor\<close>

text \<open>
  C5. GetLabels has three outcomes. When recognition succeeds it returns the raw payload
  as it is, with the blob id, and writes nothing. When recognition raises
  InvalidBlobHasBeenUploaded it sets the status INVALID_BLOB_HAS_BEEN_UPLOADED and
  raises RecognitionStepHasBeenFailed with the blob id in the payload; when recognition
  raises TooLargeBlobHasBeenUploaded it sets TOO_LARGE_BLOB_HAS_BEEN_UPLOADED and raises
  RecognitionStepHasBeenFailed with the blob id in the payload.
\<close>

theorem GetLabels_outcomes:
  "(recognise e blob_id = Detected raw \<longrightarrow>
      fst (GetLabels e blob_id w) = Inr \<lparr>step_blob_id = blob_id, step_labels = raw\<rparr> \<and>
      store (snd (GetLabels e blob_id w)) = store w \<and>
      calls (snd (GetLabels e blob_id w)) = calls w @ [Rekognition_detect_labels blob_id]) \<and>
   (recognise e blob_id = Raises_InvalidBlobHasBeenUploaded msg \<longrightarrow>
      fst (GetLabels e blob_id w) =
        Inl (RecognitionBaseException RecognitionStepHasBeenFailed msg
               [(''blob_id'', Str blob_id)]) \<and>
      calls (snd (GetLabels e blob_id w)) =
        calls w @ [Rekognition_detect_labels blob_id,
                   Db_update_status blob_id INVALID_BLOB_HAS_BEEN_UPLOADED] \<and>
      (\<forall>b. store w blob_id = Some b \<longrightarrow>
         store (snd (GetLabels e blob_id w)) blob_id =
           Some (b\<lparr>status := INVALID_BLOB_HAS_BEEN_UPLOADED\<rparr>))) \<and>
   (recognise e blob_id = Raises_TooLargeBlobHasBeenUploaded msg \<longrightarrow>
      fst (GetLabels e blob_id w) =
        Inl (RecognitionBaseException RecognitionStepHasBeenFailed msg
               [(''blob_id'', Str blob_id)]) \<and>
      calls (snd (GetLabels e blob_id w)) =
        calls w @ [Rekognition_detect_labels blob_id,
                   Db_update_status blob_id TOO_LARGE_BLOB_HAS_BEEN_UPLOADED] \<and>
      (\<forall>b. store w blob_id = Some b \<longrightarrow>
         store (snd (GetLabels e blob_id w)) blob_id =
           Some (b\<lparr>status := TOO_LARGE_BLOB_HAS_BEEN_UPLOADED\<rparr>)))"
  by (simp add: GetLabels_def detect_labels_def update_status_def Let_def)

theorem GetLabels_outcomes_witness:
  "fst (GetLabels (env_with True (Detected cat_raw) (Response 204)) ''b1'' (world_with IN_PROGRESS)) =
     Inr \<lparr>step_blob_id = ''b1'', step_labels = cat_raw\<rparr> \<and>
   store (snd (GetLabels (env_with True (Detected cat_raw) (Response 204)) ''b1''
                 (world_with IN_PROGRESS))) ''b1'' = Some (record_in IN_PROGRESS) \<and>
   fst (GetLabels (env_with True (Raises_InvalidBlobHasBeenUploaded ''bad format'') (Response 204))
          ''b1'' (world_with IN_PROGRESS)) =
     Inl (RecognitionBaseException RecognitionStepHasBeenFailed ''bad format''
            [(''blob_id'', Str ''b1'')]) \<and>
   store (snd (GetLabels (env_with True (Raises_InvalidBlobHasBeenUploaded ''bad format'')
                            (Response 204)) ''b1'' (world_with IN_PROGRESS))) ''b1'' =
     Some (record_in INVALID_BLOB_HAS_BEEN_UPLOADED) \<and>
   fst (GetLabels (env_with True (Raises_TooLargeBlobHasBeenUploaded ''too large'') (Response 204))
          ''b1'' (world_with IN_PROGRESS)) =
     Inl (RecognitionBaseException RecognitionStepHasBeenFailed ''too large''
            [(''blob_id'', Str ''b1'')]) \<and>
   store (snd (GetLabels (env_with True (Raises_TooLargeBlobHasBeenUploaded ''too large'')
                            (Response 204)) ''b1'' (world_with IN_PROGRESS))) ''b1'' =
     Some (record_in TOO_LARGE_BLOB_HAS_BEEN_UPLOADED)"
  using
    GetLabels_outcomes [of "env_with True (Detected cat_raw) (Response 204)" "''b1''" cat_raw
      "world_with IN_PROGRESS"]
    GetLabels_outcomes [of "env_with True (Raises_InvalidBlobHasBeenUploaded ''bad format'')
      (Response 204)" "''b1''" _ "world_with IN_PROGRESS" "''bad format''"]
    GetLabels_outcomes [of "env_with True (Raises_TooLargeBlobHasBeenUploaded ''too large'')
      (Response 204)" "''b1''" _ "world_with IN_PROGRESS" "''too large''"]
  by (simp add: env_with_def store_world_with record_in_def)

section \<open>The Recognition Trigger\<close>

text \<open>
  C7. For every blob id, StartRecognition makes two calls on its collaborators, in this
  order: it writes the status IN_PROGRESS to the store, then it launches the recognition
  workflow. There is no launch that the write does not come before, and the
  store it leaves is the store with the status written.
\<close>

theorem StartRecognition_order:
  "fst (StartRecognition blob_id w) = Inr () \<and>
   calls (snd (StartRecognition blob_id w)) =
     calls w @ [Db_update_status blob_id IN_PROGRESS, Recognition_step_function_launch blob_id] \<and>
   store (snd (StartRecognition blob_id w)) = store (update_status blob_id IN_PROGRESS w)"
  by (simp add: StartRecognition_def launch_recognition_def update_status_def Let_def)

text \<open>
  C9. Invoking StartRecognition twice for the same blob id raises nothing either time,
  the second invocation leaves the store as the first left it, and the status of the
  record is IN_PROGRESS after the first invocation and after the second.
\<close>

theorem StartRecognition_twice:
  "fst (StartRecognition blob_id w) = Inr () \<and>
   fst (StartRecognition blob_id (snd (StartRecognition blob_id w))) = Inr () \<and>
   store (snd (StartRecognition blob_id (snd (StartRecognition blob_id w)))) =
     store (snd (StartRecognition blob_id w)) \<and>
   (\<forall>b. store w blob_id = Some b \<longrightarrow>
      store (snd (StartRecognition blob_id w)) blob_id = Some (b\<lparr>status := IN_PROGRESS\<rparr>) \<and>
      store (snd (StartRecognition blob_id (snd (StartRecognition blob_id w)))) blob_id =
        Some (b\<lparr>status := IN_PROGRESS\<rparr>))"
  by (auto simp add: StartRecognition_def launch_recognition_def update_status_def Let_def
      split: option.split)

theorem StartRecognition_twice_witness:
  "store (world_with WAITING_FOR_UPLOAD) ''b1'' = Some (record_in WAITING_FOR_UPLOAD) \<and>
   fst (StartRecognition ''b1'' (snd (StartRecognition ''b1'' (world_with WAITING_FOR_UPLOAD)))) =
     Inr () \<and>
   store (snd (StartRecognition ''b1'' (world_with WAITING_FOR_UPLOAD))) ''b1'' =
     Some (record_in IN_PROGRESS) \<and>
   store (snd (StartRecognition ''b1'' (snd (StartRecognition ''b1''
            (world_with WAITING_FOR_UPLOAD))))) ''b1'' = Some (record_in IN_PROGRESS)"
  using StartRecognition_twice [of "''b1''" "world_with WAITING_FOR_UPLOAD"]
  by (simp add: store_world_with record_in_def)

section \<open>The Callback Dispatcher\<close>

lemma invoke_result:
  "fst (invoke e url data w) =
     (case http_invoke e url data (timeout e) of
        Response code \<Rightarrow> Inr (if code = 204 then Invoker_SUCCESS else Invoker_CALLBACK_FAILURE)
      | Raises_ConnectTimeout \<Rightarrow> Inr Invoker_CONNECTION_TIMEOUT
      | Raises_ConnectionError \<Rightarrow> Inr Invoker_CONNECTION_ERROR
      | Raises cls \<Rightarrow> Inl (Uncaught cls))"
  by (simp add: invoke_def Let_def split: http_outcome.split)

lemma invoke_world:
  "snd (invoke e url data w) = w\<lparr>calls := calls w @ [Http_invoke url data]\<rparr>"
  by (simp add: invoke_def Let_def split: http_outcome.split)

lemma Invoker_constants:
  "distinct [Invoker_SUCCESS, Invoker_CALLBACK_FAILURE, Invoker_CONNECTION_TIMEOUT,
             Invoker_CONNECTION_ERROR]"
  by (simp add: Invoker_SUCCESS_def Invoker_CALLBACK_FAILURE_def Invoker_CONNECTION_TIMEOUT_def
      Invoker_CONNECTION_ERROR_def)

lemma invoke_one_of_four:
  assumes "fst (invoke e url data w) = Inr st"
  shows "st \<in> {Invoker_SUCCESS, Invoker_CALLBACK_FAILURE, Invoker_CONNECTION_TIMEOUT,
               Invoker_CONNECTION_ERROR}"
  using assms by (auto simp add: invoke_result split: http_outcome.splits if_splits)

lemma InvokeCallback_unfolded:
  assumes "store w blob_id = Some blob"
  shows "InvokeCallback e blob_id ls w =
           (let w1 = w\<lparr>calls := calls w @ [Db_get_blob blob_id]\<rparr>;
                data = as_dict \<lparr>result_blob_id = blob_id, result_labels = ls\<rparr>;
                w2 = w1\<lparr>calls := calls w1 @ [Http_invoke (callback_url blob) data]\<rparr>
            in case http_invoke e (callback_url blob) data (timeout e) of
                 Response code \<Rightarrow>
                   (Inr \<lparr>step_blob_id = blob_id, step_labels = ls\<rparr>,
                    update_status blob_id
                      (if code = 204 then SUCCESS else FAILED_DUE_TO_CALLBACK_FAILURE) w2)
               | Raises_ConnectTimeout \<Rightarrow>
                   (Inr \<lparr>step_blob_id = blob_id, step_labels = ls\<rparr>,
                    update_status blob_id FAILED_DUE_TO_CALLBACK_TIME_OUT w2)
               | Raises_ConnectionError \<Rightarrow>
                   (Inr \<lparr>step_blob_id = blob_id, step_labels = ls\<rparr>,
                    update_status blob_id FAILED_DUE_TO_CALLBACK_CONNECTION w2)
               | Raises cls \<Rightarrow> (Inl (Uncaught cls), w2))"
  using assms Invoker_constants
  by (simp add: InvokeCallback_def get_blob_def invoke_def Let_def split: http_outcome.split)

text \<open>
  The four outcomes that the Invoker classifies. Take a delivery attempt: the record of
  the blob is in the store and its callback url is called. When the call returns a
  response with status code 204 the status becomes SUCCESS; with any other status
  code, FAILED_DUE_TO_CALLBACK_FAILURE; when it raises ConnectTimeout,
  FAILED_DUE_TO_CALLBACK_TIME_OUT; when it raises ConnectionError,
  FAILED_DUE_TO_CALLBACK_CONNECTION. In each of the four cases InvokeCallback returns
  its result and raises nothing. The Invoker returns one of its four constants whenever
  it returns, and the four are different, so one branch of the dispatcher is taken.
\<close>

theorem InvokeCallback_classification:
  assumes "store w blob_id = Some blob"
  shows
    "(http_invoke e (callback_url blob)
        (as_dict \<lparr>result_blob_id = blob_id, result_labels = ls\<rparr>) (timeout e) = Response 204 \<longrightarrow>
        fst (InvokeCallback e blob_id ls w) = Inr \<lparr>step_blob_id = blob_id, step_labels = ls\<rparr> \<and>
        store (snd (InvokeCallback e blob_id ls w)) blob_id = Some (blob\<lparr>status := SUCCESS\<rparr>)) \<and>
     (\<forall>code. code \<noteq> 204 \<and>
        http_invoke e (callback_url blob)
          (as_dict \<lparr>result_blob_id = blob_id, result_labels = ls\<rparr>) (timeout e) = Response code \<longrightarrow>
        fst (InvokeCallback e blob_id ls w) = Inr \<lparr>step_blob_id = blob_id, step_labels = ls\<rparr> \<and>
        store (snd (InvokeCallback e blob_id ls w)) blob_id =
          Some (blob\<lparr>status := FAILED_DUE_TO_CALLBACK_FAILURE\<rparr>)) \<and>
     (http_invoke e (callback_url blob)
        (as_dict \<lparr>result_blob_id = blob_id, result_labels = ls\<rparr>) (timeout e) =
          Raises_ConnectTimeout \<longrightarrow>
        fst (InvokeCallback e blob_id ls w) = Inr \<lparr>step_blob_id = blob_id, step_labels = ls\<rparr> \<and>
        store (snd (InvokeCallback e blob_id ls w)) blob_id =
          Some (blob\<lparr>status := FAILED_DUE_TO_CALLBACK_TIME_OUT\<rparr>)) \<and>
     (http_invoke e (callback_url blob)
        (as_dict \<lparr>result_blob_id = blob_id, result_labels = ls\<rparr>) (timeout e) =
          Raises_ConnectionError \<longrightarrow>
        fst (InvokeCallback e blob_id ls w) = Inr \<lparr>step_blob_id = blob_id, step_labels = ls\<rparr> \<and>
        store (snd (InvokeCallback e blob_id ls w)) blob_id =
          Some (blob\<lparr>status := FAILED_DUE_TO_CALLBACK_CONNECTION\<rparr>)) \<and>
     (\<forall>url data w0 st. fst (invoke e url data w0) = Inr st \<longrightarrow>
        st \<in> {Invoker_SUCCESS, Invoker_CALLBACK_FAILURE, Invoker_CONNECTION_TIMEOUT,
               Invoker_CONNECTION_ERROR}) \<and>
     distinct [Invoker_SUCCESS, Invoker_CALLBACK_FAILURE, Invoker_CONNECTION_TIMEOUT,
               Invoker_CONNECTION_ERROR]"
proof (intro conjI allI impI)
  fix url data w0 st
  assume "fst (invoke e url data w0) = Inr st"
  then show "st \<in> {Invoker_SUCCESS, Invoker_CALLBACK_FAILURE, Invoker_CONNECTION_TIMEOUT,
                    Invoker_CONNECTION_ERROR}"
    by (rule invoke_one_of_four)
next
  show "distinct [Invoker_SUCCESS, Invoker_CALLBACK_FAILURE, Invoker_CONNECTION_TIMEOUT,
                  Invoker_CONNECTION_ERROR]"
    by (rule Invoker_constants)
qed (simp_all add: InvokeCallback_unfolded [OF assms] Let_def update_status_def assms)

theorem InvokeCallback_classification_witness:
  "store (world_with IN_PROGRESS) ''b1'' = Some (record_in IN_PROGRESS) \<and>
   fst (InvokeCallback (env_with True (Detected cat_raw) (Response 204)) ''b1'' cat_labels
          (world_with IN_PROGRESS)) =
     Inr \<lparr>step_blob_id = ''b1'', step_labels = cat_labels\<rparr> \<and>
   store (snd (InvokeCallback (env_with True (Detected cat_raw) (Response 204)) ''b1'' cat_labels
                 (world_with IN_PROGRESS))) ''b1'' = Some (record_in SUCCESS) \<and>
   fst (InvokeCallback (env_with True (Detected cat_raw) (Response 500)) ''b1'' cat_labels
          (world_with IN_PROGRESS)) =
     Inr \<lparr>step_blob_id = ''b1'', step_labels = cat_labels\<rparr> \<and>
   store (snd (InvokeCallback (env_with True (Detected cat_raw) (Response 500)) ''b1'' cat_labels
                 (world_with IN_PROGRESS))) ''b1'' = Some (record_in FAILED_DUE_TO_CALLBACK_FAILURE) \<and>
   fst (InvokeCallback (env_with True (Detected cat_raw) Raises_ConnectTimeout) ''b1'' cat_labels
          (world_with IN_PROGRESS)) =
     Inr \<lparr>step_blob_id = ''b1'', step_labels = cat_labels\<rparr> \<and>
   store (snd (InvokeCallback (env_with True (Detected cat_raw) Raises_ConnectTimeout) ''b1''
                 cat_labels (world_with IN_PROGRESS))) ''b1'' =
     Some (record_in FAILED_DUE_TO_CALLBACK_TIME_OUT) \<and>
   fst (InvokeCallback (env_with True (Detected cat_raw) Raises_ConnectionError) ''b1'' cat_labels
          (world_with IN_PROGRESS)) =
     Inr \<lparr>step_blob_id = ''b1'', step_labels = cat_labels\<rparr> \<and>
   store (snd (InvokeCallback (env_with True (Detected cat_raw) Raises_ConnectionError) ''b1''
                 cat_labels (world_with IN_PROGRESS))) ''b1'' =
     Some (record_in FAILED_DUE_TO_CALLBACK_CONNECTION) \<and>
   fst (invoke (env_with True (Detected cat_raw) (Response 204)) ''https://example.com/cb''
          cat_labels empty_world) = Inr Invoker_SUCCESS"
  using
    InvokeCallback_classification [OF store_world_with [of IN_PROGRESS],
      where e = "env_with True (Detected cat_raw) (Response 204)" and ls = cat_labels]
    InvokeCallback_classification [OF store_world_with [of IN_PROGRESS],
      where e = "env_with True (Detected cat_raw) (Response 500)" and ls = cat_labels]
    InvokeCallback_classification [OF store_world_with [of IN_PROGRESS],
      where e = "env_with True (Detected cat_raw) Raises_ConnectTimeout" and ls = cat_labels]
    InvokeCallback_classification [OF store_world_with [of IN_PROGRESS],
      where e = "env_with True (Detected cat_raw) Raises_ConnectionError" and ls = cat_labels]
    store_world_with [of IN_PROGRESS]
  by (simp add: env_with_def record_in_def invoke_result)

text \<open>
  C3. Every delivery attempt should end in one of the four statuses with a normal
  return: the docstring of InvokeCallback has an unsuccessful callback invocation
  still count as a successful recognition, and the Invoker passes a timeout to the
  call and classifies the ConnectTimeout. The code misses a case. When the response
  does not come within the timeout the call raises ReadTimeout, which is neither a
  ConnectTimeout nor a ConnectionError: the Invoker does not catch it, InvokeCallback
  raises it and the status of the record stays IN_PROGRESS.
\<close>

theorem InvokeCallback_unclassified_attempt:
  "store (world_with IN_PROGRESS) ''b1'' = Some (record_in IN_PROGRESS) \<and>
   fst (InvokeCallback (env_with True (Detected cat_raw) (Raises ''ReadTimeout'')) ''b1''
          cat_labels (world_with IN_PROGRESS)) = Inl (Uncaught ''ReadTimeout'') \<and>
   store (snd (InvokeCallback (env_with True (Detected cat_raw) (Raises ''ReadTimeout'')) ''b1''
                 cat_labels (world_with IN_PROGRESS))) ''b1'' = Some (record_in IN_PROGRESS)"
  by (simp add: InvokeCallback_unfolded [OF store_world_with] env_with_def Let_def
      store_world_with)

section \<open>The Label Normalizer\<close>

lemma comprehension_total:
  "(\<And>x. x \<in> set xs \<Longrightarrow> f x = Inr (g x)) \<Longrightarrow> comprehension f xs = Inr (map g xs)"
  by (induction xs) simp_all

lemma py_get_dict: "is_dict j \<Longrightarrow> py_get j k d = Inr (lookup_default (dict_items j) k d)"
  by (cases j) simp_all

lemma parent_names:
  assumes "list_all is_dict ps"
  shows "comprehension (\<lambda>parent. py_get parent ''Name'' (JStr '''')) ps =
           Inr (map (\<lambda>p. lookup_default (dict_items p) ''Name'' (JStr '''')) ps)"
  using assms by (intro comprehension_total) (simp add: list_all_iff py_get_dict)

lemma transform_label_detected:
  assumes "detected_label l"
  shows "transform_label l =
           Inr (JDict [(''label'', lookup_default (dict_items l) ''Name'' (JStr '''')),
                       (''confidence'', lookup_default (dict_items l) ''Confidence'' (JStr '''')),
                       (''parents'',
                          JList (map (\<lambda>p. lookup_default (dict_items p) ''Name'' (JStr ''''))
                                   (parent_list l)))])"
proof (cases l)
  case (JDict kvs)
  show ?thesis
  proof (cases "map_of kvs ''Parents''")
    case None
    with JDict show ?thesis
      by (simp add: transform_label_def parent_list_def lookup_default_def)
  next
    case (Some ps)
    with JDict assms obtain qs where qs: "ps = JList qs" "list_all is_dict qs"
      by (cases ps) simp_all
    with JDict Some show ?thesis
      by (simp add: transform_label_def parent_list_def lookup_default_def parent_names)
  qed
qed (use assms in simp_all)

lemma transform_detected:
  assumes "map_of kvs ''Labels'' = Some (JList ls)" and "list_all detected_label ls"
  shows "transform (JDict kvs) =
           Inr (JList (map (\<lambda>l.
             JDict [(''label'', lookup_default (dict_items l) ''Name'' (JStr '''')),
                    (''confidence'', lookup_default (dict_items l) ''Confidence'' (JStr '''')),
                    (''parents'',
                       JList (map (\<lambda>p. lookup_default (dict_items p) ''Name'' (JStr ''''))
                                (parent_list l)))]) ls))"
proof -
  have "comprehension transform_label ls =
          Inr (map (\<lambda>l.
             JDict [(''label'', lookup_default (dict_items l) ''Name'' (JStr '''')),
                    (''confidence'', lookup_default (dict_items l) ''Confidence'' (JStr '''')),
                    (''parents'',
                       JList (map (\<lambda>p. lookup_default (dict_items p) ''Name'' (JStr ''''))
                                (parent_list l)))]) ls)"
    using assms(2) by (intro comprehension_total) (simp add: list_all_iff transform_label_detected)
  with assms(1) show ?thesis
    by (simp add: transform_def lookup_default_def)
qed

lemma sky_list_detected: "list_all detected_label sky_list"
  by (simp add: sky_list_def)

lemma sky_Labels: "map_of [(''Labels'', JList sky_list)] ''Labels'' = Some (JList sky_list)"
  by simp

text \<open>
  C8. TransformLabels takes no store and returns a value only. For every raw payload
  whose \<^verbatim>\<open>Labels\<close> are N detected labels, the output has N entries in the same order;
  entry i is the dict with the keys label, confidence and parents made from label i,
  where a missing \<^verbatim>\<open>Name\<close> or \<^verbatim>\<open>Confidence\<close> becomes the empty string, and a label
  with no parents has the empty list under the key parents.
\<close>

theorem TransformLabels_structure:
  assumes "map_of kvs ''Labels'' = Some (JList ls)" and "list_all detected_label ls"
  shows "\<exists>out. TransformLabels blob_id (JDict kvs) =
                  Inr \<lparr>step_blob_id = blob_id, step_labels = JList out\<rparr> \<and>
               length out = length ls \<and>
               (\<forall>i<length ls.
                  out ! i =
                    JDict [(''label'', lookup_default (dict_items (ls ! i)) ''Name'' (JStr '''')),
                           (''confidence'',
                              lookup_default (dict_items (ls ! i)) ''Confidence'' (JStr '''')),
                           (''parents'',
                              JList (map (\<lambda>p. lookup_default (dict_items p) ''Name'' (JStr ''''))
                                       (parent_list (ls ! i))))] \<and>
                  (parent_list (ls ! i) = [] \<longrightarrow>
                     map_of (dict_items (out ! i)) ''parents'' = Some (JList [])))"
  using transform_detected [OF assms] by (simp add: TransformLabels_def)

theorem TransformLabels_structure_witness:
  "list_all detected_label sky_list \<and>
   (\<exists>out. TransformLabels ''b1'' (JDict [(''Labels'', JList sky_list)]) =
            Inr \<lparr>step_blob_id = ''b1'', step_labels = JList out\<rparr> \<and>
          length out = 3 \<and>
          out ! 0 = JDict [(''label'', JStr ''Cat''), (''confidence'', JNum (981 / 10)),
                           (''parents'', JList [JStr ''Animal''])] \<and>
          out ! 1 = JDict [(''label'', JStr ''Sky''), (''confidence'', JStr ''''),
                           (''parents'', JList [])] \<and>
          out ! 2 = JDict [(''label'', JStr ''''), (''confidence'', JNum 50),
                           (''parents'', JList [])])"
proof -
  obtain out where out:
    "TransformLabels ''b1'' (JDict [(''Labels'', JList sky_list)]) =
       Inr \<lparr>step_blob_id = ''b1'', step_labels = JList out\<rparr>"
    "length out = length sky_list"
    "\<forall>i<length sky_list.
       out ! i =
         JDict [(''label'', lookup_default (dict_items (sky_list ! i)) ''Name'' (JStr '''')),
                (''confidence'',
                   lookup_default (dict_items (sky_list ! i)) ''Confidence'' (JStr '''')),
                (''parents'',
                   JList (map (\<lambda>p. lookup_default (dict_items p) ''Name'' (JStr ''''))
                            (parent_list (sky_list ! i))))] \<and>
       (parent_list (sky_list ! i) = [] \<longrightarrow>
          map_of (dict_items (out ! i)) ''parents'' = Some (JList []))"
    using TransformLabels_structure [OF sky_Labels sky_list_detected, of "''b1''"] by blast
  have len: "length sky_list = 3"
    by (simp add: sky_list_def)
  have "out ! 0 = JDict [(''label'', JStr ''Cat''), (''confidence'', JNum (981 / 10)),
                         (''parents'', JList [JStr ''Animal''])]"
    using out(3) len by (simp add: sky_list_def lookup_default_def parent_list_def)
  moreover have "out ! 1 = JDict [(''label'', JStr ''Sky''), (''confidence'', JStr ''''),
                                  (''parents'', JList [])]"
    using out(3) len by (simp add: sky_list_def lookup_default_def parent_list_def)
  moreover have "out ! 2 = JDict [(''label'', JStr ''''), (''confidence'', JNum 50),
                                  (''parents'', JList [])]"
    using out(3) len by (simp add: sky_list_def lookup_default_def parent_list_def)
  ultimately show ?thesis
    using out(1,2) len sky_list_detected by auto
qed

text \<open>
  C10, as the code has it. For every payload dict that lacks the key \<^verbatim>\<open>Labels\<close> or binds
  it to \<^verbatim>\<open>None\<close>, TransformLabels raises a TypeError and produces no output. When
  \<^verbatim>\<open>Labels\<close> is bound to a list of dicts, each with \<^verbatim>\<open>Parents\<close> absent or bound to a list
  of dicts, TransformLabels returns a result.
\<close>

theorem TransformLabels_domain:
  "((map_of kvs ''Labels'' = None \<or> map_of kvs ''Labels'' = Some JNull) \<longrightarrow>
      TransformLabels blob_id (JDict kvs) = Inl TypeError) \<and>
   (map_of kvs ''Labels'' = Some (JList ls) \<and> list_all detected_label ls \<longrightarrow>
      (\<exists>r. TransformLabels blob_id (JDict kvs) = Inr r))"
proof (intro conjI impI)
  assume "map_of kvs ''Labels'' = None \<or> map_of kvs ''Labels'' = Some JNull"
  then show "TransformLabels blob_id (JDict kvs) = Inl TypeError"
    by (auto simp add: TransformLabels_def transform_def lookup_default_def)
next
  assume "map_of kvs ''Labels'' = Some (JList ls) \<and> list_all detected_label ls"
  then show "\<exists>r. TransformLabels blob_id (JDict kvs) = Inr r"
    using transform_detected [of kvs ls] by (simp add: TransformLabels_def)
qed

theorem TransformLabels_domain_witness:
  "TransformLabels ''b1'' (JDict []) = Inl TypeError \<and>
   TransformLabels ''b1'' (JDict [(''Labels'', JNull)]) = Inl TypeError \<and>
   list_all detected_label sky_list \<and>
   (\<exists>r. TransformLabels ''b1'' (JDict [(''Labels'', JList sky_list)]) = Inr r)"
  using TransformLabels_domain [of "[]" "''b1''" sky_list]
    TransformLabels_domain [of "[(''Labels'', JNull)]" "''b1''" sky_list]
    TransformLabels_domain [of "[(''Labels'', JList sky_list)]" "''b1''" sky_list]
    sky_list_detected
  by simp

text \<open>
  The claim C10 as it is written fails: a payload whose \<^verbatim>\<open>Labels\<close> is a list holding a
  number, or a label whose \<^verbatim>\<open>Parents\<close> is \<^verbatim>\<open>None\<close>, has the key bound to a sequence,
  and the transformation raises.
\<close>

theorem TransformLabels_not_total:
  "map_of [(''Labels'', JList [JNum 5])] ''Labels'' = Some (JList [JNum 5]) \<and>
   TransformLabels ''b1'' (JDict [(''Labels'', JList [JNum 5])]) = Inl AttributeError \<and>
   TransformLabels ''b1''
     (JDict [(''Labels'', JList [JDict [(''Name'', JStr ''Cat''), (''Parents'', JNull)]])]) =
     Inl TypeError"
  by (simp add: TransformLabels_def transform_def transform_label_def lookup_default_def)

section \<open>The state machine\<close>

text \<open>
  What a write of a status does to the record of any id: the record stays, with its
  callback url, and its status is the written one when the id is the written id.
\<close>

lemma update_status_record:
  assumes "store w i = Some b"
  shows "\<exists>b'. store (update_status blob_id st w) i = Some b' \<and>
              callback_url b' = callback_url b \<and>
              status b' = (if i = blob_id then st else status b)"
proof (cases "i = blob_id")
  case True
  with assms update_status_present [of w blob_id b st] show ?thesis by simp
next
  case False
  with assms update_status_other [of i blob_id st w] show ?thesis by simp
qed

lemma update_status_after_calls:
  "store (update_status blob_id st (w\<lparr>calls := cs\<rparr>)) = store (update_status blob_id st w)"
  by (simp add: update_status_def split: option.split)

lemma store_with_calls: "store (w\<lparr>calls := cs\<rparr>) = store w"
  by simp

lemma CheckUploading_store:
  "store (snd (CheckUploading e blob_id w)) =
     (if uploaded e blob_id then store w else store (update_status blob_id UPLOAD_TIMED_OUT w))"
  by (simp add: CheckUploading_def is_uploaded_def update_status_def split: option.split)

lemma StartRecognition_store:
  "store (snd (StartRecognition blob_id w)) = store (update_status blob_id IN_PROGRESS w)"
  by (simp add: StartRecognition_def launch_recognition_def Let_def)

lemma GetLabels_store:
  "store (snd (GetLabels e blob_id w)) =
     (case recognise e blob_id of
        Detected raw \<Rightarrow> store w
      | Raises_InvalidBlobHasBeenUploaded msg \<Rightarrow>
          store (update_status blob_id INVALID_BLOB_HAS_BEEN_UPLOADED w)
      | Raises_TooLargeBlobHasBeenUploaded msg \<Rightarrow>
          store (update_status blob_id TOO_LARGE_BLOB_HAS_BEEN_UPLOADED w))"
  by (simp add: GetLabels_def detect_labels_def update_status_def Let_def
      split: detection.split option.split)

lemma HandleUnexpectedError_store:
  "store (snd (HandleUnexpectedError blob_id w)) = store (update_status blob_id UNEXPECTED_ERROR w)"
  by (simp add: HandleUnexpectedError_def)

lemma InvokeCallback_store:
  assumes "store w blob_id = Some blob"
  shows "store (snd (InvokeCallback e blob_id ls w)) = store w \<or>
         (\<exists>st. st \<in> {SUCCESS, FAILED_DUE_TO_CALLBACK_FAILURE, FAILED_DUE_TO_CALLBACK_TIME_OUT,
                      FAILED_DUE_TO_CALLBACK_CONNECTION} \<and>
               store (snd (InvokeCallback e blob_id ls w)) = store (update_status blob_id st w))"
proof (cases "http_invoke e (callback_url blob)
                (as_dict \<lparr>result_blob_id = blob_id, result_labels = ls\<rparr>) (timeout e)")
  case (Response code)
  then have "store (snd (InvokeCallback e blob_id ls w)) =
               store (update_status blob_id
                 (if code = 204 then SUCCESS else FAILED_DUE_TO_CALLBACK_FAILURE) w)"
    by (simp add: InvokeCallback_unfolded [OF assms] Let_def update_status_after_calls)
  then show ?thesis by auto
next
  case Raises_ConnectTimeout
  then have "store (snd (InvokeCallback e blob_id ls w)) =
               store (update_status blob_id FAILED_DUE_TO_CALLBACK_TIME_OUT w)"
    by (simp add: InvokeCallback_unfolded [OF assms] Let_def update_status_after_calls)
  then show ?thesis by auto
next
  case Raises_ConnectionError
  then have "store (snd (InvokeCallback e blob_id ls w)) =
               store (update_status blob_id FAILED_DUE_TO_CALLBACK_CONNECTION w)"
    by (simp add: InvokeCallback_unfolded [OF assms] Let_def update_status_after_calls)
  then show ?thesis by auto
next
  case (Raises cls)
  then have "store (snd (InvokeCallback e blob_id ls w)) = store w"
    by (simp add: InvokeCallback_unfolded [OF assms] Let_def)
  then show ?thesis by simp
qed

lemma InvokeCallback_store_absent:
  assumes "store w blob_id = None"
  shows "store (snd (InvokeCallback e blob_id ls w)) = store w"
  using assms by (simp add: InvokeCallback_def get_blob_def)

lemma InitializeUploadListening_other:
  assumes "blob_id \<noteq> i"
  shows "store (snd (InitializeUploadListening e blob_id url w)) i = store w i"
  using assms
  by (simp add: InitializeUploadListening_def validate_callback_url_def create_def
      launch_uploading_def generate_presigned_url_def Let_def)

lemma SaveLabels_record:
  assumes "store w i = Some b"
  shows "\<exists>b'. store (snd (SaveLabels blob_id ls w)) i = Some b' \<and>
              callback_url b' = callback_url b \<and> status b' = status b"
proof (cases "i = blob_id")
  case True
  with assms show ?thesis by (simp add: SaveLabels_def save_labels_def)
next
  case False
  with assms show ?thesis
    by (simp add: SaveLabels_def save_labels_def split: option.split)
qed

lemma spec_edge_into:
  "spec_edge s t =
     (s = WAITING_FOR_UPLOAD \<and> (t = IN_PROGRESS \<or> t = UPLOAD_TIMED_OUT) \<or>
      s = IN_PROGRESS \<and>
        (t = INVALID_BLOB_HAS_BEEN_UPLOADED \<or> t = TOO_LARGE_BLOB_HAS_BEEN_UPLOADED \<or>
         t = UNEXPECTED_ERROR \<or> t = SUCCESS \<or> t = FAILED_DUE_TO_CALLBACK_FAILURE \<or>
         t = FAILED_DUE_TO_CALLBACK_TIME_OUT \<or> t = FAILED_DUE_TO_CALLBACK_CONNECTION))"
  by (cases s) simp_all

lemma InitializeUploadListening_own:
  "store (snd (InitializeUploadListening e blob_id url w)) blob_id =
     (if is_valid_url e url
      then Some \<lparr>callback_url = url, status = WAITING_FOR_UPLOAD, labels = None\<rparr>
      else store w blob_id)"
  by (simp add: InitializeUploadListening_def validate_callback_url_def create_def
      launch_uploading_def generate_presigned_url_def Let_def)

lemma InvokeCallback_other:
  assumes "i \<noteq> blob_id"
  shows "store (snd (InvokeCallback e blob_id ls w)) i = store w i"
proof (cases "store w blob_id")
  case None
  then show ?thesis by (simp add: InvokeCallback_store_absent)
next
  case (Some blob)
  from InvokeCallback_store [OF Some, of e ls] assms show ?thesis
    by (auto simp add: update_status_other)
qed

lemma InvokeCallback_own:
  assumes "store w blob_id = Some b"
  shows "\<exists>b'. store (snd (InvokeCallback e blob_id ls w)) blob_id = Some b' \<and>
              status b' =
                (case http_invoke e (callback_url b)
                        (as_dict \<lparr>result_blob_id = blob_id, result_labels = ls\<rparr>) (timeout e) of
                   Response code \<Rightarrow> if code = 204 then SUCCESS else FAILED_DUE_TO_CALLBACK_FAILURE
                 | Raises_ConnectTimeout \<Rightarrow> FAILED_DUE_TO_CALLBACK_TIME_OUT
                 | Raises_ConnectionError \<Rightarrow> FAILED_DUE_TO_CALLBACK_CONNECTION
                 | Raises cls \<Rightarrow> status b)"
  using assms
  by (simp add: InvokeCallback_unfolded [OF assms] Let_def update_status_def
      split: http_outcome.split)

text \<open>
  C6, as the code has it. Take any invocation of a use case, with any answers of the
  collaborators, and any record of the store. The record stays in the store. Its
  status afterwards is its status before or a successor of it in the state machine
  exactly when the invocation names another blob, or writes no status, or finds the
  record in the state the written status is a successor of (WAITING_FOR_UPLOAD for
  CheckUploading and StartRecognition, IN_PROGRESS for GetLabels, InvokeCallback and
  HandleUnexpectedError), or finds the record with the written status already. In every
  other case the status is overwritten with one that is no successor of it.
\<close>

theorem status_moves_along_edges:
  assumes "store w i = Some b"
  shows "\<exists>b'. store (step e u w) i = Some b' \<and>
              ((status b' = status b \<or> spec_edge (status b) (status b')) \<longleftrightarrow>
               runs_in_order e u i b)"
proof (cases u)
  case (Call_InitializeUploadListening blob_id url)
  show ?thesis
  proof (cases "blob_id = i")
    case True
    with Call_InitializeUploadListening assms show ?thesis
      by (auto simp add: InitializeUploadListening_own spec_edge_into)
  next
    case False
    with Call_InitializeUploadListening assms show ?thesis
      by (simp add: InitializeUploadListening_other)
  qed
next
  case (Call_CheckUploading blob_id)
  with assms update_status_record [OF assms, of blob_id UPLOAD_TIMED_OUT] show ?thesis
    by (auto simp add: CheckUploading_store spec_edge_into)
next
  case (Call_StartRecognition blob_id)
  with assms update_status_record [OF assms, of blob_id IN_PROGRESS] show ?thesis
    by (auto simp add: StartRecognition_store spec_edge_into)
next
  case (Call_GetLabels blob_id)
  show ?thesis
  proof (cases "recognise e blob_id")
    case (Detected raw)
    with Call_GetLabels assms show ?thesis
      by (simp add: GetLabels_store)
  next
    case (Raises_InvalidBlobHasBeenUploaded msg)
    with Call_GetLabels assms
      update_status_record [OF assms, of blob_id INVALID_BLOB_HAS_BEEN_UPLOADED]
    show ?thesis
      by (auto simp add: GetLabels_store spec_edge_into)
  next
    case (Raises_TooLargeBlobHasBeenUploaded msg)
    with Call_GetLabels assms
      update_status_record [OF assms, of blob_id TOO_LARGE_BLOB_HAS_BEEN_UPLOADED]
    show ?thesis
      by (auto simp add: GetLabels_store spec_edge_into)
  qed
next
  case (Call_TransformLabels blob_id raw)
  with assms show ?thesis by simp
next
  case (Call_SaveLabels blob_id ls)
  with SaveLabels_record [OF assms, of blob_id ls] show ?thesis by auto
next
  case (Call_InvokeCallback blob_id ls)
  show ?thesis
  proof (cases "blob_id = i")
    case False
    with Call_InvokeCallback assms InvokeCallback_other [of i blob_id e ls w] show ?thesis
      by simp
  next
    case True
    with assms have own: "store w blob_id = Some b"
      by simp
    from InvokeCallback_own [OF own, of e ls] obtain b' where b':
      "store (snd (InvokeCallback e blob_id ls w)) blob_id = Some b'"
      "status b' =
         (case http_invoke e (callback_url b)
                 (as_dict \<lparr>result_blob_id = blob_id, result_labels = ls\<rparr>) (timeout e) of
            Response code \<Rightarrow> if code = 204 then SUCCESS else FAILED_DUE_TO_CALLBACK_FAILURE
          | Raises_ConnectTimeout \<Rightarrow> FAILED_DUE_TO_CALLBACK_TIME_OUT
          | Raises_ConnectionError \<Rightarrow> FAILED_DUE_TO_CALLBACK_CONNECTION
          | Raises cls \<Rightarrow> status b)"
      by blast
    have "(status b' = status b \<or> spec_edge (status b) (status b')) \<longleftrightarrow>
          runs_in_order e (Call_InvokeCallback blob_id ls) i b"
      using b'(2) True
      by (auto simp add: spec_edge_into split: http_outcome.splits if_splits)
    with b'(1) True Call_InvokeCallback show ?thesis
      by auto
  qed
next
  case (Call_HandleUnexpectedError blob_id)
  with assms update_status_record [OF assms, of blob_id UNEXPECTED_ERROR] show ?thesis
    by (auto simp add: HandleUnexpectedError_store spec_edge_into)
next
  case (Call_GetRecognitionResult blob_id)
  with assms show ?thesis
    by (simp add: GetRecognitionResult_store)
qed

theorem status_moves_along_edges_witness:
  "store (world_with WAITING_FOR_UPLOAD) ''b1'' = Some (record_in WAITING_FOR_UPLOAD) \<and>
   store (step (env_with False (Detected cat_raw) (Response 204)) (Call_CheckUploading ''b1'')
            (world_with WAITING_FOR_UPLOAD)) ''b1'' = Some (record_in UPLOAD_TIMED_OUT) \<and>
   spec_edge WAITING_FOR_UPLOAD UPLOAD_TIMED_OUT \<and>
   runs_in_order (env_with False (Detected cat_raw) (Response 204)) (Call_CheckUploading ''b1'')
     ''b1'' (record_in WAITING_FOR_UPLOAD) \<and>
   store (step (env_with True (Detected cat_raw) (Response 204)) (Call_CheckUploading ''b1'')
            (world_with SUCCESS)) ''b1'' = Some (record_in SUCCESS) \<and>
   runs_in_order (env_with True (Detected cat_raw) (Response 204)) (Call_CheckUploading ''b1'')
     ''b1'' (record_in SUCCESS) \<and>
   store (step (env_with True (Detected cat_raw) (Response 204)) (Call_StartRecognition ''b1'')
            (world_with IN_PROGRESS)) ''b1'' = Some (record_in IN_PROGRESS) \<and>
   runs_in_order (env_with True (Detected cat_raw) (Response 204)) (Call_StartRecognition ''b1'')
     ''b1'' (record_in IN_PROGRESS) \<and>
   store (step (env_with True (Detected cat_raw) (Response 204))
            (Call_HandleUnexpectedError ''b1'') (world_with SUCCESS)) ''b1'' =
     Some (record_in UNEXPECTED_ERROR) \<and>
   \<not> spec_edge SUCCESS UNEXPECTED_ERROR \<and>
   \<not> runs_in_order (env_with True (Detected cat_raw) (Response 204))
        (Call_HandleUnexpectedError ''b1'') ''b1'' (record_in SUCCESS)"
proof -
  have s1: "store (step (env_with False (Detected cat_raw) (Response 204))
                    (Call_CheckUploading ''b1'') (world_with WAITING_FOR_UPLOAD)) ''b1'' =
              Some (record_in UPLOAD_TIMED_OUT)"
    by (simp add: CheckUploading_def is_uploaded_def update_status_def world_with_def
        record_in_def env_with_def)
  have s2: "store (step (env_with True (Detected cat_raw) (Response 204))
                    (Call_CheckUploading ''b1'') (world_with SUCCESS)) ''b1'' =
              Some (record_in SUCCESS)"
    by (simp add: CheckUploading_def is_uploaded_def world_with_def env_with_def)
  have s3: "store (step (env_with True (Detected cat_raw) (Response 204))
                    (Call_StartRecognition ''b1'') (world_with IN_PROGRESS)) ''b1'' =
              Some (record_in IN_PROGRESS)"
    by (simp add: StartRecognition_def launch_recognition_def update_status_def world_with_def
        record_in_def Let_def)
  have s4: "store (step (env_with True (Detected cat_raw) (Response 204))
                    (Call_HandleUnexpectedError ''b1'') (world_with SUCCESS)) ''b1'' =
              Some (record_in UNEXPECTED_ERROR)"
    by (simp add: HandleUnexpectedError_def update_status_def world_with_def record_in_def)
  show ?thesis
    using
      status_moves_along_edges [OF store_world_with [of WAITING_FOR_UPLOAD],
        where e = "env_with False (Detected cat_raw) (Response 204)"
          and u = "Call_CheckUploading ''b1''"]
      status_moves_along_edges [OF store_world_with [of SUCCESS],
        where e = "env_with True (Detected cat_raw) (Response 204)"
          and u = "Call_CheckUploading ''b1''"]
      status_moves_along_edges [OF store_world_with [of IN_PROGRESS],
        where e = "env_with True (Detected cat_raw) (Response 204)"
          and u = "Call_StartRecognition ''b1''"]
      status_moves_along_edges [OF store_world_with [of SUCCESS],
        where e = "env_with True (Detected cat_raw) (Response 204)"
          and u = "Call_HandleUnexpectedError ''b1''"]
      s1 s2 s3 s4 store_world_with [of WAITING_FOR_UPLOAD]
    by (simp add: status_record_in)
qed

text \<open>
  C6 as it is written fails: no use case reads the status before it writes one.
  Register a blob, start its recognition and deliver its labels with a 204: the record
  is in SUCCESS, a terminal state. An invocation of HandleUnexpectedError then moves it
  to UNEXPECTED_ERROR, one of CheckUploading that finds no upload to UPLOAD_TIMED_OUT,
  and one of StartRecognition back to IN_PROGRESS.
\<close>

theorem terminal_status_is_overwritten:
  "map_option status (store (run delivered empty_world) ''b1'') = Some SUCCESS \<and>
   spec_terminal SUCCESS \<and>
   map_option status
     (store (run (delivered @ [(env_with True (Detected cat_raw) (Response 204),
                                Call_HandleUnexpectedError ''b1'')]) empty_world) ''b1'') =
     Some UNEXPECTED_ERROR \<and>
   \<not> spec_edge SUCCESS UNEXPECTED_ERROR \<and>
   map_option status
     (store (run (delivered @ [(env_with False (Detected cat_raw) (Response 204),
                                Call_CheckUploading ''b1'')]) empty_world) ''b1'') =
     Some UPLOAD_TIMED_OUT \<and>
   \<not> spec_edge SUCCESS UPLOAD_TIMED_OUT \<and>
   map_option status
     (store (run (delivered @ [(env_with True (Detected cat_raw) (Response 204),
                                Call_StartRecognition ''b1'')]) empty_world) ''b1'') =
     Some IN_PROGRESS \<and>
   \<not> spec_edge SUCCESS IN_PROGRESS"
  by (simp add: delivered_def empty_world_def env_with_def URL_def
      InitializeUploadListening_def validate_callback_url_def is_valid_url_def create_def
      launch_uploading_def generate_presigned_url_def StartRecognition_def
      launch_recognition_def update_status_def InvokeCallback_def get_blob_def invoke_def
      as_dict_def HandleUnexpectedError_def CheckUploading_def is_uploaded_def
      spec_terminal_def Invoker_SUCCESS_def Let_def)

end
